theory Spec2Isabelle
  imports Complex_Main "HOL-Library.Sublist" "HOL-Library.List_Lexorder" "HOL-Library.Log_Nat"
begin

section \<open>Python values\<close>

text \<open>
  A Python \<open>str\<close> is a sequence of Unicode code points, and \<open>sorted\<close> compares two
  strings lexicographically by code point: the order of \<open>nat list\<close>.  \<open>str\<close> turns
  an ASCII literal of the source into that representation.
\<close>

type_synonym codepoint = nat
type_synonym pystr = "codepoint list"

definition str :: "string \<Rightarrow> pystr" where
  "str s = map of_char s"

datatype py_error = KeyError | ZeroDivisionError | OverflowError | UnicodeEncodeError

subsection \<open>\<open>str.lower\<close>\<close>

text \<open>
  \<open>str.lower()\<close> is CPython's, not the repository's.  It maps every code point through
  the full lower-case mapping of the Unicode database (one code point may become up to
  three), except U+03A3 (capital sigma, 931), which becomes U+03C2 (962) in final
  position of a word and U+03C3 (963) elsewhere; that one case looks at the
  neighbouring code points.  The database is a parameter: its entries outside ASCII
  are not fixed here.  On ASCII it maps \<open>A\<close>..\<open>Z\<close> to \<open>a\<close>..\<open>z\<close> and nothing else.
\<close>

record unicode_db =
  to_lower_full :: "codepoint \<Rightarrow> codepoint list"
  is_cased :: "codepoint \<Rightarrow> bool"
  is_case_ignorable :: "codepoint \<Rightarrow> bool"

definition ascii_tolower :: "codepoint \<Rightarrow> codepoint" where
  "ascii_tolower c = (if 65 \<le> c \<and> c \<le> 90 then c + 32 else c)"

text \<open>
  \<open>left\<close> holds the code points before the sigma, nearest first; \<open>right\<close> those
  after it.  The sigma is final when a cased code point precedes it and none follows,
  case-ignorable code points being skipped on both sides.
\<close>

definition handle_capital_sigma :: "unicode_db \<Rightarrow> pystr \<Rightarrow> pystr \<Rightarrow> codepoint" where
  "handle_capital_sigma db left right =
     (let before = dropWhile (is_case_ignorable db) left;
          after = dropWhile (is_case_ignorable db) right
      in if before \<noteq> [] \<and> is_cased db (hd before) \<and>
            (after = [] \<or> \<not> is_cased db (hd after))
         then 962 else 963)"

definition lower_ucs4 :: "unicode_db \<Rightarrow> pystr \<Rightarrow> codepoint \<Rightarrow> pystr \<Rightarrow> pystr" where
  "lower_ucs4 db left c right =
     (if c = 931 then [handle_capital_sigma db left right]
      else if c < 128 then [ascii_tolower c]
      else to_lower_full db c)"

fun do_lower :: "unicode_db \<Rightarrow> pystr \<Rightarrow> pystr \<Rightarrow> pystr" where
  "do_lower db left [] = []"
| "do_lower db left (c # right) = lower_ucs4 db left c right @ do_lower db (c # left) right"

definition lower :: "unicode_db \<Rightarrow> pystr \<Rightarrow> pystr" where
  "lower db s = do_lower db [] s"

text \<open>
  A database that agrees with Unicode on ASCII and leaves every other code point as
  it is.  The examples below run on ASCII text, where \<open>lower\<close> reads none of its
  entries for other code points.
\<close>

definition ucd_ascii :: unicode_db where
  "ucd_ascii =
     \<lparr>to_lower_full = (\<lambda>c. [c]),
      is_cased = (\<lambda>c. (65 \<le> c \<and> c \<le> 90) \<or> (97 \<le> c \<and> c \<le> 122)),
      is_case_ignorable = (\<lambda>c. c = 39 \<or> c = 46 \<or> c = 58 \<or> c = 94 \<or> c = 96)\<rparr>"

subsection \<open>\<open>in\<close> on strings and lists\<close>

text \<open>\<open>p in s\<close> on two strings: some suffix of \<open>s\<close> starts with \<open>p\<close>.\<close>

fun startswith :: "'a list \<Rightarrow> 'a list \<Rightarrow> bool" where
  "startswith [] s = True"
| "startswith (p # ps) [] = False"
| "startswith (p # ps) (c # cs) = (p = c \<and> startswith ps cs)"

fun str_contains :: "'a list \<Rightarrow> 'a list \<Rightarrow> bool" where
  "str_contains p [] = (p = [])"
| "str_contains p (c # cs) = (startswith p (c # cs) \<or> str_contains p cs)"

text \<open>\<open>x in xs\<close> on a list: a linear search with \<open>==\<close>.\<close>

fun list_contains :: "'a list \<Rightarrow> 'a \<Rightarrow> bool" where
  "list_contains [] x = False"
| "list_contains (y # ys) x = (x = y \<or> list_contains ys x)"

subsection \<open>Dictionaries\<close>

text \<open>
  A dictionary literal keeps the order in which its entries are written, so it is an
  association list; \<open>d.get(k, default)\<close> never raises, \<open>d[k]\<close> raises \<open>KeyError\<close>.
\<close>

definition dict_get :: "('k \<times> 'v) list \<Rightarrow> 'k \<Rightarrow> 'v \<Rightarrow> 'v" where
  "dict_get d k dflt = (case map_of d k of None \<Rightarrow> dflt | Some v \<Rightarrow> v)"

definition dict_getitem :: "('k \<times> 'v) list \<Rightarrow> 'k \<Rightarrow> py_error + 'v" where
  "dict_getitem d k = (case map_of d k of None \<Rightarrow> Inl KeyError | Some v \<Rightarrow> Inr v)"

section \<open>Predefined data\<close>

definition job_roles :: "(pystr \<times> pystr list) list" where
  "job_roles =
    [(str ''Data Analyst'',
        [str ''Python'', str ''SQL'', str ''Excel'', str ''Power BI'', str ''Statistics'']),
     (str ''AI/ML Engineer'',
        [str ''Python'', str ''Machine Learning'', str ''Deep Learning'', str ''TensorFlow'',
         str ''PyTorch'']),
     (str ''Web Developer'',
        [str ''HTML'', str ''CSS'', str ''JavaScript'', str ''React'', str ''SQL'']),
     (str ''Software Engineer'',
        [str ''Java'', str ''C++'', str ''Data Structures'', str ''Algorithms''])]"

text \<open>
  \<open>sorted({skill for skills in job_roles.values() for skill in skills})\<close>: the set
  forgets order and duplicates, \<open>sorted\<close> lists it in increasing order.
\<close>

definition all_skills :: "pystr list" where
  "all_skills = sorted_list_of_set (set (concat (map snd job_roles)))"

section \<open>Helper functions\<close>

definition extract_skills :: "unicode_db \<Rightarrow> pystr \<Rightarrow> pystr list" where
  "extract_skills db text =
     (let text_lower = lower db text;
          found = filter (\<lambda>skill. str_contains (lower db skill) text_lower) all_skills
      in sorted_list_of_set (set found))"

definition suggest_skills :: "pystr list \<Rightarrow> pystr \<Rightarrow> pystr list" where
  "suggest_skills found_skills target_role =
     (let role_skills = dict_get job_roles target_role [];
          missing = filter (\<lambda>s. \<not> list_contains found_skills s) role_skills
      in missing)"

text \<open>
  \<open>sorted(list(set(found)))\<close> goes through a set, and the order in which Python lists
  the elements of a set of strings depends on their hashes, which change from one
  process to the next.  A run of \<open>extract_skills\<close> is therefore a relation: the set is
  listed in some order, each element once, and that list is sorted.
\<close>

definition set_iteration :: "'a set \<Rightarrow> 'a list \<Rightarrow> bool" where
  "set_iteration S xs \<longleftrightarrow> distinct xs \<and> set xs = S"

definition extract_skills_run :: "unicode_db \<Rightarrow> pystr \<Rightarrow> pystr list \<Rightarrow> bool" where
  "extract_skills_run db text result \<longleftrightarrow>
     (\<exists>listed.
        set_iteration
          (set (filter (\<lambda>skill. str_contains (lower db skill) (lower db text)) all_skills))
          listed \<and>
        result = sort listed)"

text \<open>
  The words of a text, for stating what a standalone occurrence of a skill is: the
  maximal runs of code points other than the space (32).  The program has no such
  notion.
\<close>

fun split_words :: "pystr \<Rightarrow> pystr \<Rightarrow> pystr list" where
  "split_words cur [] = (if cur = [] then [] else [cur])"
| "split_words cur (c # cs) =
     (if c = 32 then (if cur = [] then split_words [] cs else cur # split_words [] cs)
      else split_words (cur @ [c]) cs)"

definition words_of :: "pystr \<Rightarrow> pystr list" where
  "words_of t = split_words [] t"

text \<open>
  Lower-casing up to the two small sigmas: with 962 read as 963, \<open>lower\<close> is a map
  over the code points, each one lower-cased on its own.
\<close>

definition sigma_norm :: "codepoint \<Rightarrow> codepoint" where
  "sigma_norm c = (if c = 962 then 963 else c)"

definition lower_norm :: "unicode_db \<Rightarrow> codepoint \<Rightarrow> pystr" where
  "lower_norm db c =
     (if c = 931 then [963]
      else if c < 128 then [ascii_tolower c]
      else map sigma_norm (to_lower_full db c))"

section \<open>Floating point\<close>

text \<open>
  \<open>len(skills) / len(...)\<close> is a true division of two integers and gives a \<open>float\<close>,
  an IEEE 754 binary64 number; so does the product with 100.  A finite float is the
  rational it denotes.  Both operations return the exact result rounded to the
  nearest float, ties to the even significand: for \<open>2 ^ e \<le> q < 2 ^ (e + 1)\<close> the
  floats around \<open>q\<close> are the multiples of \<open>2 ^ (e - 52)\<close>, and below \<open>2 ^ (- 1022)\<close>
  those of \<open>2 ^ (- 1074)\<close>.  A result of \<open>2 ^ 1024\<close> or more is an overflow: the
  division raises \<open>OverflowError\<close>, the product is infinite, and \<open>int\<close> of an
  infinite float raises \<open>OverflowError\<close>.
\<close>

datatype pyfloat = Finite rat | Infinity

definition pow2 :: "int \<Rightarrow> rat" where
  "pow2 e = (if 0 \<le> e then 2 ^ nat e else 1 / 2 ^ nat (- e))"

definition round_half_even :: "rat \<Rightarrow> int" where
  "round_half_even x =
     (let f = \<lfloor>x\<rfloor>; d = x - of_int f
      in if d < 1 / 2 then f
         else if 1 / 2 < d then f + 1
         else if even f then f else f + 1)"

definition floor_log2 :: "rat \<Rightarrow> int" where
  "floor_log2 q =
     (let (a, b) = quotient_of q; k = bitlen a - bitlen b
      in if pow2 k \<le> q then k else k - 1)"

definition round_binary64 :: "rat \<Rightarrow> pyfloat" where
  "round_binary64 q =
     (if q = 0 then Finite 0
      else let e = max (floor_log2 \<bar>q\<bar>) (- 1022);
               ulp = pow2 (e - 52);
               m = round_half_even (\<bar>q\<bar> / ulp)
           in if 1024 \<le> e \<or> (e = 1023 \<and> m = 2 ^ 53) then Infinity
              else Finite (sgn q * (of_int m * ulp)))"

definition int_truediv :: "int \<Rightarrow> int \<Rightarrow> py_error + pyfloat" where
  "int_truediv a b =
     (if b = 0 then Inl ZeroDivisionError
      else case round_binary64 (of_int a / of_int b) of
             Infinity \<Rightarrow> Inl OverflowError
           | Finite x \<Rightarrow> Inr (Finite x))"

definition float_of_int :: "int \<Rightarrow> pyfloat" where
  "float_of_int n = round_binary64 (of_int n)"

definition float_mul :: "pyfloat \<Rightarrow> pyfloat \<Rightarrow> pyfloat" where
  "float_mul x y =
     (case (x, y) of
        (Finite a, Finite b) \<Rightarrow> round_binary64 (a * b)
      | _ \<Rightarrow> Infinity)"

text \<open>\<open>int(x)\<close> drops the fraction: towards zero.\<close>

definition int_of_float :: "pyfloat \<Rightarrow> py_error + int" where
  "int_of_float x =
     (case x of
        Infinity \<Rightarrow> Inl OverflowError
      | Finite a \<Rightarrow> Inr (if 0 \<le> a then \<lfloor>a\<rfloor> else \<lceil>a\<rceil>))"

section \<open>Module 1: resume analysis\<close>

text \<open>
  \<open>int((len(skills)/len(job_roles[target_role]))*100) if job_roles[target_role] else 0\<close>:
  the condition is evaluated first and indexes the dictionary.
\<close>

definition job_fit :: "pystr list \<Rightarrow> pystr \<Rightarrow> py_error + int" where
  "job_fit skills target_role =
     (case dict_getitem job_roles target_role of
        Inl e \<Rightarrow> Inl e
      | Inr required \<Rightarrow>
          if required \<noteq> [] then
            (case int_truediv (int (length skills)) (int (length required)) of
               Inl e \<Rightarrow> Inl e
             | Inr q \<Rightarrow> int_of_float (float_mul q (float_of_int 100)))
          else Inr 0)"

record resume_result =
  res_file :: pystr
  res_role :: pystr
  res_detected :: "pystr list"
  res_missing :: "pystr list"
  res_job_fit :: int

text \<open>
  The body of the loop over the uploaded files, for one file: \<open>text\<close> is what the PDF
  library extracted from it, \<open>target_role\<close> what the role selector returned.
\<close>

definition resume_analysis ::
  "unicode_db \<Rightarrow> pystr \<Rightarrow> pystr \<Rightarrow> pystr \<Rightarrow> py_error + resume_result" where
  "resume_analysis db file_name target_role text =
     (let skills = extract_skills db text;
          missing_skills = suggest_skills skills target_role
      in case job_fit skills target_role of
           Inl e \<Rightarrow> Inl e
         | Inr fit \<Rightarrow>
             Inr \<lparr>res_file = file_name, res_role = target_role, res_detected = skills,
                  res_missing = missing_skills, res_job_fit = fit\<rparr>)"




section \<open>Module 2: create resume\<close>

record resume_form =
  form_name :: pystr
  form_email :: pystr
  form_skills :: "pystr list"
  form_target_job :: pystr
  form_summary :: pystr

text \<open>The calls made on the \<open>FPDF\<close> object, in order, with their text arguments.\<close>

datatype pdf_op =
    AddPage
  | SetFont pystr pystr nat
  | Cell nat nat pystr
  | Ln nat
  | MultiCell nat nat pystr

datatype ui_event =
    Warning pystr
  | DownloadButton pystr "nat list" pystr
  | Success pystr

fun join :: "pystr \<Rightarrow> pystr list \<Rightarrow> pystr" where
  "join sep [] = []"
| "join sep [x] = x"
| "join sep (x # y # ys) = x @ sep @ join sep (y # ys)"

definition resume_pdf :: "resume_form \<Rightarrow> pdf_op list" where
  "resume_pdf form =
     [AddPage,
      SetFont (str ''Arial'') (str ''B'') 16,
      Cell 0 10 (form_name form),
      SetFont (str ''Arial'') [] 12,
      Cell 0 10 (str ''Email: '' @ form_email form),
      Ln 10,
      SetFont (str ''Arial'') (str ''B'') 14,
      Cell 0 10 (str ''Target Job: '' @ form_target_job form),
      Ln 5,
      SetFont (str ''Arial'') (str ''B'') 12,
      Cell 0 10 (str ''Professional Summary:''),
      SetFont (str ''Arial'') [] 12,
      MultiCell 0 8 (form_summary form),
      Ln 5,
      SetFont (str ''Arial'') (str ''B'') 12,
      Cell 0 10 (str ''Skills:''),
      SetFont (str ''Arial'') [] 12,
      MultiCell 0 8 (join (str '', '') (form_skills form))]"

text \<open>
  \<open>pdf_output\<close> stands for \<open>pdf.output(dest='S').encode('latin-1')\<close>: the library's
  serialisation of the document to bytes, which raises on text outside Latin-1.
  \<open>clicked\<close> is what \<open>st.button\<close> returned.  The result lists what is shown to the
  user; a document is produced when a download button carrying its bytes is.
\<close>

definition create_resume ::
  "(pdf_op list \<Rightarrow> py_error + nat list) \<Rightarrow> bool \<Rightarrow> resume_form \<Rightarrow> py_error + ui_event list"
where
  "create_resume pdf_output clicked form =
     (if clicked then
        (if form_name form = [] \<or> form_email form = [] \<or> form_skills form = [] \<or>
            form_summary form = []
         then Inr [Warning (str ''Please fill all fields to generate the resume.'')]
         else case pdf_output (resume_pdf form) of
                Inl e \<Rightarrow> Inl e
              | Inr pdf_bytes \<Rightarrow>
                  Inr [DownloadButton ([11015, 65039] @ str '' Download Resume PDF'') pdf_bytes
                         (form_name form @ str ''_resume.pdf''),
                       Success (str ''Resume PDF generated successfully!'')])
      else Inr [])"

fun is_download :: "ui_event \<Rightarrow> bool" where
  "is_download (DownloadButton label data file_name) = True"
| "is_download _ = False"

fun is_warning :: "ui_event \<Rightarrow> bool" where
  "is_warning (Warning msg) = True"
| "is_warning _ = False"

definition document_produced :: "py_error + ui_event list \<Rightarrow> bool" where
  "document_produced r = (case r of Inl e \<Rightarrow> False | Inr shown \<Rightarrow> list_ex is_download shown)"

definition failure_reported :: "py_error + ui_event list \<Rightarrow> bool" where
  "failure_reported r = (case r of Inl e \<Rightarrow> False | Inr shown \<Rightarrow> list_ex is_warning shown)"

section \<open>Substring search\<close>

lemma startswith_iff: "startswith p s \<longleftrightarrow> (\<exists>ss. s = p @ ss)"
  by (induction p s rule: startswith.induct) auto

lemma str_contains_iff: "str_contains p s \<longleftrightarrow> (\<exists>ps ss. s = ps @ p @ ss)"
proof (induction s)
  case Nil
  show ?case by auto
next
  case (Cons c cs)
  have "(\<exists>ps ss. c # cs = ps @ p @ ss) \<longleftrightarrow>
        (\<exists>ss. c # cs = p @ ss) \<or> (\<exists>ps ss. cs = ps @ p @ ss)"
    (is "?L \<longleftrightarrow> ?A \<or> ?B")
  proof
    assume ?L
    then obtain ps ss where eq: "c # cs = ps @ p @ ss" by blast
    show "?A \<or> ?B"
    proof (cases ps)
      case Nil
      with eq show ?thesis by auto
    next
      case (Cons a as)
      with eq have "cs = as @ p @ ss" by simp
      then show ?thesis by blast
    qed
  next
    assume "?A \<or> ?B"
    then show ?L
    proof
      assume ?A
      then obtain ss where "c # cs = [] @ p @ ss" by auto
      then show ?L by blast
    next
      assume ?B
      then obtain ps ss where "cs = ps @ p @ ss" by blast
      then have "c # cs = (c # ps) @ p @ ss" by simp
      then show ?L by blast
    qed
  qed
  with Cons show ?case by (simp add: startswith_iff)
qed

lemma list_contains_iff: "list_contains xs x \<longleftrightarrow> x \<in> set xs"
  by (induction xs) auto

section \<open>The skill catalog\<close>

lemma all_skills_eq:
  "all_skills =
     [str ''Algorithms'', str ''C++'', str ''CSS'', str ''Data Structures'',
      str ''Deep Learning'', str ''Excel'', str ''HTML'', str ''Java'', str ''JavaScript'',
      str ''Machine Learning'', str ''Power BI'', str ''PyTorch'', str ''Python'',
      str ''React'', str ''SQL'', str ''Statistics'', str ''TensorFlow'']"
  by code_simp

lemma set_extract_skills:
  "set (extract_skills db text) =
     {s \<in> set all_skills. str_contains (lower db s) (lower db text)}"
  by (simp add: extract_skills_def)

section \<open>Skill detection\<close>

text \<open>
  C1.  For every skill of the catalog and every text, the skill is in
  \<open>extract_skills text\<close> exactly when its lower-cased form occurs as a contiguous
  substring of the lower-cased text: there are code points before and after it, with
  no condition on them, so no word boundary is checked.
\<close>

theorem extract_skills_iff_substring:
  assumes "s \<in> set all_skills"
  shows "s \<in> set (extract_skills db t) \<longleftrightarrow> (\<exists>ps ss. lower db t = ps @ lower db s @ ss)"
  using assms by (simp add: set_extract_skills str_contains_iff)

theorem extract_skills_iff_substring_witness:
  "str ''SQL'' \<in> set all_skills \<and>
   (str ''SQL'' \<in> set (extract_skills ucd_ascii (str ''MySQL admin'')) \<longleftrightarrow>
    (\<exists>ps ss. lower ucd_ascii (str ''MySQL admin'') = ps @ lower ucd_ascii (str ''SQL'') @ ss))"
proof -
  have h: "str ''SQL'' \<in> set all_skills" by code_simp
  from h extract_skills_iff_substring [OF h, of ucd_ascii "str ''MySQL admin''"]
  show ?thesis by blast
qed

section \<open>Lower-casing and concatenation\<close>

lemma sigma_norm_ascii_tolower: "c < 128 \<Longrightarrow> sigma_norm (ascii_tolower c) = ascii_tolower c"
  by (simp add: sigma_norm_def ascii_tolower_def)

lemma map_sigma_norm_lower_ucs4:
  "map sigma_norm (lower_ucs4 db left c right) = lower_norm db c"
  by (simp add: lower_ucs4_def lower_norm_def handle_capital_sigma_def Let_def
      sigma_norm_ascii_tolower) (simp add: sigma_norm_def)

lemma map_sigma_norm_do_lower:
  "map sigma_norm (do_lower db left s) = concat (map (lower_norm db) s)"
  by (induction s arbitrary: left) (simp_all add: map_sigma_norm_lower_ucs4)

lemma map_sigma_norm_lower_append:
  "map sigma_norm (lower db (t @ u)) = map sigma_norm (lower db t) @ map sigma_norm (lower db u)"
  by (simp add: lower_def map_sigma_norm_do_lower)

lemma map_sigma_norm_eq_self:
  assumes "map sigma_norm b = p" "963 \<notin> set p"
  shows "b = p"
proof -
  have "\<forall>x\<in>set b. sigma_norm x = x"
  proof
    fix x assume "x \<in> set b"
    then have "sigma_norm x \<in> set p" using assms(1) by auto
    with assms(2) have "sigma_norm x \<noteq> 963" by auto
    then show "sigma_norm x = x" by (simp add: sigma_norm_def split: if_splits)
  qed
  then have "map sigma_norm b = b" by (simp add: map_idI)
  with assms(1) show ?thesis by simp
qed

lemma map_eq_append3D:
  assumes "map f xs = ps @ p @ ss"
  shows "\<exists>a b c. xs = a @ b @ c \<and> map f b = p"
proof -
  let ?a = "take (length ps) xs"
  let ?b = "take (length p) (drop (length ps) xs)"
  let ?c = "drop (length p) (drop (length ps) xs)"
  have "map f ?b = take (length p) (drop (length ps) (map f xs))"
    by (simp add: take_map drop_map)
  also have "\<dots> = p" by (simp add: assms)
  finally have "map f ?b = p" .
  moreover have "xs = ?a @ ?b @ ?c" by (simp only: append_take_drop_id)
  ultimately show ?thesis by blast
qed

lemma substring_sigma_norm:
  assumes "962 \<notin> set p" "963 \<notin> set p"
  shows "(\<exists>ps ss. xs = ps @ p @ ss) \<longleftrightarrow> (\<exists>ps ss. map sigma_norm xs = ps @ p @ ss)"
proof
  assume "\<exists>ps ss. xs = ps @ p @ ss"
  then obtain ps ss where xs: "xs = ps @ p @ ss" by blast
  have "map sigma_norm p = p"
    using assms(1) by (intro map_idI) (auto simp: sigma_norm_def)
  with xs have "map sigma_norm xs = map sigma_norm ps @ p @ map sigma_norm ss"
    by simp
  then show "\<exists>ps ss. map sigma_norm xs = ps @ p @ ss" by (intro exI)
next
  assume "\<exists>ps ss. map sigma_norm xs = ps @ p @ ss"
  then obtain ps ss where e: "map sigma_norm xs = ps @ p @ ss" by blast
  from map_eq_append3D [OF e]
  obtain a b c where xs: "xs = a @ b @ c" and b: "map sigma_norm b = p" by blast
  from b assms(2) have "b = p" by (rule map_sigma_norm_eq_self)
  with xs show "\<exists>ps ss. xs = ps @ p @ ss" by blast
qed

lemma do_lower_ascii:
  "\<forall>c\<in>set s. c < 128 \<Longrightarrow> do_lower db left s = map ascii_tolower s"
  by (induction s arbitrary: left) (simp_all add: lower_ucs4_def)

lemma lower_ascii: "\<forall>c\<in>set s. c < 128 \<Longrightarrow> lower db s = map ascii_tolower s"
  by (simp add: lower_def do_lower_ascii)

lemma all_skills_ascii: "\<forall>s\<in>set all_skills. \<forall>c\<in>set s. c < 128"
  by code_simp

lemma lower_skill_no_sigma:
  assumes "s \<in> set all_skills"
  shows "962 \<notin> set (lower db s)" "963 \<notin> set (lower db s)"
proof -
  from assms all_skills_ascii have a: "\<forall>c\<in>set s. c < 128" by blast
  then have "\<forall>c\<in>set (lower db s). c < 128"
    by (auto simp: lower_ascii ascii_tolower_def)
  then show "962 \<notin> set (lower db s)" "963 \<notin> set (lower db s)" by auto
qed

text \<open>
  C9.  Appending text never removes a detected skill: every skill in
  \<open>extract_skills t\<close> is in \<open>extract_skills (t @ u)\<close>.  Only a capital sigma is
  lower-cased differently once text follows it, and no skill name contains a sigma.
\<close>

theorem extract_skills_mono:
  assumes "s \<in> set (extract_skills db t)"
  shows "s \<in> set (extract_skills db (t @ u))"
proof -
  from assms have s: "s \<in> set all_skills"
    and "\<exists>ps ss. lower db t = ps @ lower db s @ ss"
    by (simp_all add: set_extract_skills str_contains_iff)
  then have "\<exists>ps ss. map sigma_norm (lower db t) = ps @ lower db s @ ss"
    using substring_sigma_norm [OF lower_skill_no_sigma [OF s]] by blast
  then obtain ps ss where "map sigma_norm (lower db t) = ps @ lower db s @ ss" by blast
  then have "map sigma_norm (lower db (t @ u)) =
               ps @ lower db s @ (ss @ map sigma_norm (lower db u))"
    by (simp add: map_sigma_norm_lower_append)
  then have "\<exists>ps ss. map sigma_norm (lower db (t @ u)) = ps @ lower db s @ ss" by blast
  then have "\<exists>ps ss. lower db (t @ u) = ps @ lower db s @ ss"
    using substring_sigma_norm [OF lower_skill_no_sigma [OF s]] by blast
  with s show ?thesis by (simp add: set_extract_skills str_contains_iff)
qed

theorem extract_skills_mono_witness:
  "str ''Java'' \<in> set (extract_skills ucd_ascii (str ''Java'')) \<and>
   str ''Java'' \<in> set (extract_skills ucd_ascii (str ''Java'' @ str ''Script''))"
proof -
  have h: "str ''Java'' \<in> set (extract_skills ucd_ascii (str ''Java''))" by code_simp
  from extract_skills_mono [OF h, of "str ''Script''"] h show ?thesis by blast
qed


text \<open>
  C7.  The text \<open>I write JavaScript\<close> contains the token \<open>JavaScript\<close>, none of
  its words is \<open>Java\<close> (case ignored), and \<open>extract_skills\<close> still returns the
  skill \<open>Java\<close>: a skill name inside a longer token is detected.
\<close>

theorem java_in_javascript:
  "str_contains (str ''JavaScript'') (str ''I write JavaScript'') \<and>
   lower db (str ''Java'') \<notin> set (map (lower db) (words_of (str ''I write JavaScript''))) \<and>
   str ''Java'' \<in> set (extract_skills db (str ''I write JavaScript''))"
  by code_simp

section \<open>Determinism\<close>

lemma sort_set_iteration:
  assumes "set_iteration S xs"
  shows "sort xs = sorted_list_of_set S"
proof (rule sorted_distinct_set_unique)
  from assms have d: "distinct xs" and s: "set xs = S" by (simp_all add: set_iteration_def)
  show "sorted (sort xs)" by simp
  show "distinct (sort xs)" using d by simp
  have "finite S" using s by auto
  then show "sorted (sorted_list_of_set S)" "distinct (sorted_list_of_set S)" by simp_all
  show "set (sort xs) = set (sorted_list_of_set S)" using s \<open>finite S\<close> by simp
qed

text \<open>
  C6.  Two runs of \<open>extract_skills\<close> on the same text return the same list, whatever
  the order in which each run lists its set of matches: the result is a function of
  the text and the fixed catalog, the one \<open>extract_skills\<close> computes.
\<close>

theorem extract_skills_deterministic:
  assumes "extract_skills_run db t r1" and "extract_skills_run db t r2"
  shows "r1 = r2 \<and> r1 = extract_skills db t"
proof -
  let ?S = "set (filter (\<lambda>skill. str_contains (lower db skill) (lower db t)) all_skills)"
  from assms(1) obtain l1 where "set_iteration ?S l1" "r1 = sort l1"
    unfolding extract_skills_run_def by blast
  then have 1: "r1 = sorted_list_of_set ?S" by (simp add: sort_set_iteration)
  from assms(2) obtain l2 where "set_iteration ?S l2" "r2 = sort l2"
    unfolding extract_skills_run_def by blast
  then have 2: "r2 = sorted_list_of_set ?S" by (simp add: sort_set_iteration)
  have 3: "extract_skills db t = sorted_list_of_set ?S"
    by (simp add: extract_skills_def)
  from 1 2 3 show ?thesis by simp
qed

theorem extract_skills_deterministic_witness:
  "extract_skills_run ucd_ascii (str ''SQL and Excel'') [str ''Excel'', str ''SQL''] \<and>
   extract_skills ucd_ascii (str ''SQL and Excel'') = [str ''Excel'', str ''SQL'']"
proof -
  have 1: "extract_skills_run ucd_ascii (str ''SQL and Excel'') [str ''Excel'', str ''SQL'']"
    unfolding extract_skills_run_def set_iteration_def
    by (rule exI [of _ "[str ''SQL'', str ''Excel'']"]) code_simp
  have 2: "extract_skills_run ucd_ascii (str ''SQL and Excel'') [str ''Excel'', str ''SQL'']"
    unfolding extract_skills_run_def set_iteration_def
    by (rule exI [of _ "[str ''Excel'', str ''SQL'']"]) code_simp
  from extract_skills_deterministic [OF 1 2]
  have "[str ''Excel'', str ''SQL''] = extract_skills ucd_ascii (str ''SQL and Excel'')"
    by (rule conjunct2)
  with 1 show ?thesis by simp
qed

section \<open>Missing skills\<close>

lemma suggest_skills_filter:
  "suggest_skills detected role =
     filter (\<lambda>s. s \<notin> set detected) (dict_get job_roles role [])"
  by (simp add: suggest_skills_def list_contains_iff)

lemma map_of_astronaut: "map_of job_roles (str ''Astronaut'') = None"
  by code_simp

lemma map_of_data_analyst:
  "map_of job_roles (str ''Data Analyst'') =
     Some [str ''Python'', str ''SQL'', str ''Excel'', str ''Power BI'', str ''Statistics'']"
  by code_simp

text \<open>
  C4.  \<open>suggest_skills\<close> returns the role's required skills, in the role's order,
  without those in the detected list; nothing in the result is detected; a role name
  that is not in the catalog gives the empty list.  (The function has no way to
  raise: the dictionary is read with \<open>get\<close>.)
\<close>

theorem suggest_skills_spec:
  "(\<forall>required. map_of job_roles role = Some required \<longrightarrow>
      suggest_skills detected role = filter (\<lambda>s. s \<notin> set detected) required \<and>
      subseq (suggest_skills detected role) required) \<and>
   set (suggest_skills detected role) \<inter> set detected = {} \<and>
   (map_of job_roles role = None \<longrightarrow> suggest_skills detected role = [])"
  by (auto simp: suggest_skills_filter dict_get_def)

theorem suggest_skills_spec_witness:
  "map_of job_roles (str ''Data Analyst'') =
     Some [str ''Python'', str ''SQL'', str ''Excel'', str ''Power BI'', str ''Statistics''] \<and>
   suggest_skills [str ''Excel'', str ''Python'']  (str ''Data Analyst'') =
     [str ''SQL'', str ''Power BI'', str ''Statistics''] \<and>
   map_of job_roles (str ''Astronaut'') = None \<and>
   suggest_skills [str ''Excel'', str ''Python''] (str ''Astronaut'') = []"
proof -
  have 1: "filter (\<lambda>s. s \<notin> set [str ''Excel'', str ''Python''])
             [str ''Python'', str ''SQL'', str ''Excel'', str ''Power BI'', str ''Statistics'']
           = [str ''SQL'', str ''Power BI'', str ''Statistics'']"
    by code_simp
  let ?d = "[str ''Excel'', str ''Python'']"
  from suggest_skills_spec [of "str ''Data Analyst''" ?d] map_of_data_analyst
  have 2: "suggest_skills ?d (str ''Data Analyst'') =
             filter (\<lambda>s. s \<notin> set ?d)
               [str ''Python'', str ''SQL'', str ''Excel'', str ''Power BI'', str ''Statistics'']"
    by blast
  from suggest_skills_spec [of "str ''Astronaut''" ?d] map_of_astronaut
  have 3: "suggest_skills ?d (str ''Astronaut'') = []" by blast
  from 1 2 have 4: "suggest_skills ?d (str ''Data Analyst'') =
                      [str ''SQL'', str ''Power BI'', str ''Statistics'']"
    by (rule_tac trans)
  from map_of_data_analyst 4 map_of_astronaut 3 show ?thesis by blast
qed

text \<open>
  C10.  For a role of the catalog, every required skill is detected or is in the
  result of \<open>suggest_skills\<close>.
\<close>

theorem detected_and_missing_cover_role:
  assumes "map_of job_roles role = Some required"
  shows "set required \<subseteq> set detected \<union> set (suggest_skills detected role)"
  using assms by (auto simp: suggest_skills_filter dict_get_def)

theorem detected_and_missing_cover_role_witness:
  "map_of job_roles (str ''Data Analyst'') =
     Some [str ''Python'', str ''SQL'', str ''Excel'', str ''Power BI'', str ''Statistics''] \<and>
   set [str ''Python'', str ''SQL'', str ''Excel'', str ''Power BI'', str ''Statistics'']
     \<subseteq> set [str ''Excel'', str ''Python''] \<union>
        set (suggest_skills [str ''Excel'', str ''Python''] (str ''Data Analyst''))"
  using detected_and_missing_cover_role [OF map_of_data_analyst, of "[str ''Excel'', str ''Python'']"]
    map_of_data_analyst
  by blast

section \<open>Validation of the resume form\<close>

text \<open>
  C8.  When the button is pressed and one of name, email, skills and summary is
  empty, the warning is all that is shown: the failure is reported and no document
  is produced.  Whenever a document is produced, all four are non-empty.
\<close>

theorem create_resume_validation:
  "(form_name f = [] \<or> form_email f = [] \<or> form_skills f = [] \<or> form_summary f = [] \<longrightarrow>
      create_resume pdf_output True f =
        Inr [Warning (str ''Please fill all fields to generate the resume.'')] \<and>
      failure_reported (create_resume pdf_output True f) \<and>
      \<not> document_produced (create_resume pdf_output True f)) \<and>
   (document_produced (create_resume pdf_output clicked f) \<longrightarrow>
      form_name f \<noteq> [] \<and> form_email f \<noteq> [] \<and> form_skills f \<noteq> [] \<and> form_summary f \<noteq> [])"
  by (auto simp: create_resume_def document_produced_def failure_reported_def
      split: sum.splits if_splits)

theorem create_resume_validation_witness:
  "form_email
     \<lparr>form_name = str ''Ada Lovelace'', form_email = [], form_skills = [str ''Python''],
      form_target_job = str ''Data Analyst'', form_summary = str ''Analyst''\<rparr> = [] \<and>
   create_resume (\<lambda>ops. Inr [37, 80, 68, 70]) True
     \<lparr>form_name = str ''Ada Lovelace'', form_email = [], form_skills = [str ''Python''],
      form_target_job = str ''Data Analyst'', form_summary = str ''Analyst''\<rparr> =
     Inr [Warning (str ''Please fill all fields to generate the resume.'')] \<and>
   document_produced
     (create_resume (\<lambda>ops. Inr [37, 80, 68, 70]) True
        \<lparr>form_name = str ''Ada Lovelace'', form_email = str ''ada@example.org'',
         form_skills = [str ''Python''], form_target_job = str ''Data Analyst'',
         form_summary = str ''Analyst''\<rparr>) \<and>
   form_email
     \<lparr>form_name = str ''Ada Lovelace'', form_email = str ''ada@example.org'',
      form_skills = [str ''Python''], form_target_job = str ''Data Analyst'',
      form_summary = str ''Analyst''\<rparr> \<noteq> []"
proof -
  let ?out = "\<lambda>ops :: pdf_op list. Inr [37, 80, 68, 70] :: py_error + nat list"
  let ?f = "\<lparr>form_name = str ''Ada Lovelace'', form_email = [], form_skills = [str ''Python''],
         form_target_job = str ''Data Analyst'', form_summary = str ''Analyst''\<rparr>"
  let ?g = "\<lparr>form_name = str ''Ada Lovelace'', form_email = str ''ada@example.org'',
         form_skills = [str ''Python''], form_target_job = str ''Data Analyst'',
         form_summary = str ''Analyst''\<rparr>"
  have 1: "form_email ?f = []" by simp
  have 2: "document_produced (create_resume ?out True ?g)"
    by (simp add: create_resume_def document_produced_def str_def)
  from 1 create_resume_validation [of ?f ?out True]
  have 3: "create_resume ?out True ?f =
             Inr [Warning (str ''Please fill all fields to generate the resume.'')]"
    by blast
  from 2 create_resume_validation [of ?g ?out True]
  have 4: "form_email ?g \<noteq> []" by blast
  from 1 3 2 4 show ?thesis by blast
qed

section \<open>Rounding to a float\<close>

text \<open>
  The two ingredients of \<open>round_binary64\<close> do what they are used for:
  \<open>floor_log2\<close> finds the binade of a positive rational, and \<open>round_half_even\<close>
  moves by at most one half.
\<close>

lemma pow2_pos: "0 < pow2 e"
  by (simp add: pow2_def)

lemma pow2_Suc: "pow2 (e + 1) = 2 * pow2 e"
proof (cases "0 \<le> e")
  case True
  then show ?thesis by (simp add: pow2_def nat_add_distrib)
next
  case False
  then have "nat (- e) = Suc (nat (- (e + 1)))" by simp
  with False show ?thesis by (auto simp: pow2_def)
qed

lemma pow2_add_nat: "pow2 (e + int n) = pow2 e * 2 ^ n"
proof (induction n)
  case 0
  show ?case by simp
next
  case (Suc n)
  have "e + int (Suc n) = (e + int n) + 1" by simp
  then have "pow2 (e + int (Suc n)) = pow2 ((e + int n) + 1)" by (rule arg_cong)
  also have "\<dots> = 2 * pow2 (e + int n)" by (rule pow2_Suc)
  finally show ?case using Suc by simp
qed

lemma pow2_diff_nat: "pow2 (int m - int n) = 2 ^ m / 2 ^ n"
proof -
  have "pow2 (int m - int n + int n) = pow2 (int m - int n) * 2 ^ n" by (rule pow2_add_nat)
  moreover have "pow2 (int m - int n + int n) = 2 ^ m" by (simp add: pow2_def)
  ultimately show ?thesis by (simp add: field_simps)
qed

lemma bitlen_bounds_rat:
  assumes "0 < x"
  obtains l where "bitlen x = int l + 1" "(2::rat) ^ l \<le> of_int x" "of_int x < (2::rat) * 2 ^ l"
proof -
  from bitlen_bounds [OF assms]
  have lo: "2 ^ nat (bitlen x - 1) \<le> x" and hi: "x < 2 ^ nat (bitlen x)" by simp_all
  have ge: "1 \<le> bitlen x"
  proof (rule ccontr)
    assume "\<not> 1 \<le> bitlen x"
    then have "nat (bitlen x) = 0" by simp
    with hi assms show False by simp
  qed
  define l where "l = nat (bitlen x - 1)"
  from ge have bl: "bitlen x = int l + 1" and n: "nat (bitlen x) = Suc l"
    by (simp_all add: l_def)
  from lo have "(of_int (2 ^ l) :: rat) \<le> of_int x" unfolding l_def by (simp only: of_int_le_iff)
  then have 1: "(2::rat) ^ l \<le> of_int x" by simp
  from hi n have "(of_int x :: rat) < of_int (2 ^ Suc l)" by (simp only: of_int_less_iff)
  then have 2: "of_int x < (2::rat) * 2 ^ l" by simp
  from bl 1 2 show thesis by (rule that)
qed

lemma floor_log2_bounds:
  assumes "0 < q"
  shows "pow2 (floor_log2 q) \<le> q \<and> q < pow2 (floor_log2 q + 1)"
proof -
  obtain a b where ab: "quotient_of q = (a, b)" by (cases "quotient_of q")
  then have b: "0 < b" by (rule quotient_of_denom_pos)
  from ab have q: "q = of_int a / of_int b" by (rule quotient_of_div)
  with assms b have a: "0 < a" by (simp add: zero_less_divide_iff)
  from a obtain la where la: "bitlen a = int la + 1"
    and a1: "(2::rat) ^ la \<le> of_int a" and a2: "of_int a < (2::rat) * 2 ^ la"
    by (rule bitlen_bounds_rat)
  from b obtain lb where lb: "bitlen b = int lb + 1"
    and b1: "(2::rat) ^ lb \<le> of_int b" and b2: "of_int b < (2::rat) * 2 ^ lb"
    by (rule bitlen_bounds_rat)
  let ?k = "int la - int lb"
  have k: "bitlen a - bitlen b = ?k" by (simp add: la lb)
  have pk: "pow2 ?k = 2 ^ la / 2 ^ lb" by (rule pow2_diff_nat)
  have "of_int a / of_int b < (2 * 2 ^ la) / (2::rat) ^ lb"
    using a a2 b1 by (intro frac_less) simp_all
  then have up: "q < pow2 (?k + 1)" by (simp add: q pow2_Suc pk)
  have "(2::rat) ^ la / (2 * 2 ^ lb) \<le> of_int a / of_int b"
    using a a1 b b2 by (intro frac_le) simp_all
  moreover have "pow2 (?k - 1 + 1) = 2 * pow2 (?k - 1)" by (rule pow2_Suc)
  ultimately have low: "pow2 (?k - 1) \<le> q" by (simp add: q pk)
  have fl: "floor_log2 q = (if pow2 ?k \<le> q then ?k else ?k - 1)"
    by (simp add: floor_log2_def ab k)
  show ?thesis
  proof (cases "pow2 ?k \<le> q")
    case True
    with fl up show ?thesis by simp
  next
    case False
    with fl low show ?thesis by simp
  qed
qed

lemma round_half_even_near: "\<bar>of_int (round_half_even x) - x\<bar> \<le> 1 / 2"
proof -
  have "of_int \<lfloor>x\<rfloor> \<le> x" "x < of_int \<lfloor>x\<rfloor> + 1" by linarith+
  then show ?thesis by (auto simp: round_half_even_def Let_def)
qed

text \<open>
  Three values, as CPython prints them with \<open>float.as_integer_ratio\<close>:
  \<open>1 / 5\<close>, \<open>23 / 5\<close> and \<open>(23 / 5) * 100\<close>.
\<close>

lemma round_binary64_examples:
  "int_truediv 1 5 = Inr (Finite (3602879701896397 / 18014398509481984))"
  "int_truediv 23 5 = Inr (Finite (2589569785738035 / 562949953421312))"
  "float_mul (Finite (2589569785738035 / 562949953421312)) (float_of_int 100) =
     Finite (8092405580431359 / 17592186044416)"
  by code_simp+

section \<open>Job fit\<close>

text \<open>
  At most the 17 skills of the catalog are detected, and a role requires 4 or 5
  skills.  On these operands the two roundings of the floating-point computation
  cancel and the result is the integer quotient; the table is computed.
\<close>

lemma length_extract_skills_le: "length (extract_skills db t) \<le> 17"
proof -
  let ?found = "filter (\<lambda>skill. str_contains (lower db skill) (lower db t)) all_skills"
  have "length (extract_skills db t) = card (set ?found)"
    by (simp add: extract_skills_def)
  also have "\<dots> \<le> length ?found" by (rule card_length)
  also have "\<dots> \<le> length all_skills" by (rule length_filter_le)
  also have "\<dots> = 17" by (simp add: all_skills_eq)
  finally show ?thesis .
qed

lemma fit_of_5:
  "\<forall>n\<in>set [0..<18].
     (case int_truediv (int n) 5 of
        Inl e \<Rightarrow> Inl e
      | Inr q \<Rightarrow> int_of_float (float_mul q (float_of_int 100))) = Inr (int (100 * n div 5))"
  by code_simp

lemma fit_of_4:
  "\<forall>n\<in>set [0..<18].
     (case int_truediv (int n) 4 of
        Inl e \<Rightarrow> Inl e
      | Inr q \<Rightarrow> int_of_float (float_mul q (float_of_int 100))) = Inr (int (100 * n div 4))"
  by code_simp

lemma fit_of_small:
  assumes "n \<le> 17" and "d = 4 \<or> d = 5"
  shows "(case int_truediv (int n) (int d) of
            Inl e \<Rightarrow> Inl e
          | Inr q \<Rightarrow> int_of_float (float_mul q (float_of_int 100))) = Inr (int (100 * n div d))"
proof -
  from assms(1) have n: "n \<in> set [0..<18]" by simp
  from assms(2) show ?thesis
  proof
    assume "d = 4"
    with fit_of_4 n show ?thesis by simp
  next
    assume "d = 5"
    with fit_of_5 n show ?thesis by simp
  qed
qed

lemma required_length:
  assumes "map_of job_roles role = Some required"
  shows "length required = 4 \<or> length required = 5"
proof -
  from assms have "(role, required) \<in> set job_roles" by (rule map_of_SomeD)
  then show ?thesis by (auto simp: job_roles_def)
qed

lemma floor_percent: "\<lfloor>100 * rat_of_nat n / rat_of_nat d\<rfloor> = int (100 * n div d)"
proof -
  have "100 * rat_of_nat n / rat_of_nat d = rat_of_nat (100 * n) / rat_of_nat d" by simp
  then show ?thesis by (simp only: floor_divide_of_nat_eq)
qed

lemma job_fit_known:
  assumes "map_of job_roles role = Some required" and "length skills \<le> 17"
  shows "job_fit skills role = Inr (int (100 * length skills div length required))"
proof -
  from assms(1) have d: "length required = 4 \<or> length required = 5" by (rule required_length)
  then have ne: "required \<noteq> []" by auto
  from fit_of_small [OF assms(2) d] ne assms(1) show ?thesis
    by (simp add: job_fit_def dict_getitem_def)
qed

text \<open>
  This is not so for every pair of lengths: 23 skills against the five of a role
  would give \<open>23 / 5 = 4.6\<close>, rounded below, then \<open>459.99999999999994\<close> and 459,
  where the integer quotient is 460.
\<close>

lemma job_fit_rounding_remark:
  "job_fit (replicate 23 []) (str ''Data Analyst'') = Inr 459"
  by code_simp

lemma six_skills:
  "extract_skills db (str ''Python SQL Excel Power BI Statistics HTML'') =
     [str ''Excel'', str ''HTML'', str ''Power BI'', str ''Python'', str ''SQL'', str ''Statistics'']"
  by code_simp

lemma two_skills:
  "extract_skills ucd_ascii (str ''Python and SQL'') = [str ''Python'', str ''SQL'']"
  by code_simp

text \<open>
  C2.  For a role of the catalog with at least one required skill, the fit is
  \<open>floor (100 * n / r)\<close>, where \<open>n\<close> is the number of all detected skills, required
  by the role or not, and \<open>r\<close> the number of required skills; and some text gives a
  fit above 100.
\<close>

theorem job_fit_counts_all_detected:
  assumes "map_of job_roles role = Some required" and "required \<noteq> []"
  shows "job_fit (extract_skills db text) role =
           Inr \<lfloor>100 * rat_of_nat (length (extract_skills db text)) / rat_of_nat (length required)\<rfloor> \<and>
         (\<exists>text' v. job_fit (extract_skills db text') role = Inr v \<and> 100 < v)"
proof
  show "job_fit (extract_skills db text) role =
          Inr \<lfloor>100 * rat_of_nat (length (extract_skills db text)) / rat_of_nat (length required)\<rfloor>"
    using job_fit_known [OF assms(1) length_extract_skills_le] by (simp only: floor_percent)
next
  let ?t = "str ''Python SQL Excel Power BI Statistics HTML''"
  have len: "length (extract_skills db ?t) = 6" by (simp add: six_skills)
  from required_length [OF assms(1)]
  have "100 < int (100 * length (extract_skills db ?t) div length required)"
    unfolding len by auto
  moreover have "job_fit (extract_skills db ?t) role =
      Inr (int (100 * length (extract_skills db ?t) div length required))"
    by (rule job_fit_known [OF assms(1) length_extract_skills_le])
  ultimately show "\<exists>text' v. job_fit (extract_skills db text') role = Inr v \<and> 100 < v"
    by blast
qed

theorem job_fit_counts_all_detected_witness:
  "map_of job_roles (str ''Data Analyst'') =
     Some [str ''Python'', str ''SQL'', str ''Excel'', str ''Power BI'', str ''Statistics''] \<and>
   [str ''Python'', str ''SQL'', str ''Excel'', str ''Power BI'', str ''Statistics''] \<noteq> [] \<and>
   job_fit (extract_skills ucd_ascii (str ''Python and SQL'')) (str ''Data Analyst'') = Inr 40"
proof -
  let ?required = "[str ''Python'', str ''SQL'', str ''Excel'', str ''Power BI'', str ''Statistics'']"
  have ne: "?required \<noteq> []" by simp
  from job_fit_counts_all_detected [OF map_of_data_analyst ne, of ucd_ascii "str ''Python and SQL''"]
  have "job_fit (extract_skills ucd_ascii (str ''Python and SQL'')) (str ''Data Analyst'') =
          Inr \<lfloor>100 * rat_of_nat (length (extract_skills ucd_ascii (str ''Python and SQL''))) /
                 rat_of_nat (length ?required)\<rfloor>"
    by (rule conjunct1)
  also have "\<dots> = Inr 40" by (simp add: two_skills)
  finally have "job_fit (extract_skills ucd_ascii (str ''Python and SQL'')) (str ''Data Analyst'')
                  = Inr 40" .
  with map_of_data_analyst ne show ?thesis by blast
qed

text \<open>
  C3.  The fit stored for a resume is not always between 0 and 100: a resume that
  names the five skills of the role \<open>Data Analyst\<close> and one more gets 120.
\<close>

theorem job_fit_above_100:
  "resume_analysis ucd_ascii (str ''cv.pdf'') (str ''Data Analyst'')
     (str ''Python SQL Excel Power BI Statistics HTML'') =
   Inr \<lparr>res_file = str ''cv.pdf'', res_role = str ''Data Analyst'',
        res_detected = [str ''Excel'', str ''HTML'', str ''Power BI'', str ''Python'', str ''SQL'',
                        str ''Statistics''],
        res_missing = [], res_job_fit = 120\<rparr>"
  by code_simp

section \<open>The role selector\<close>


lemma job_roles_keys:
  "map fst job_roles =
     [str ''Data Analyst'', str ''AI/ML Engineer'', str ''Web Developer'', str ''Software Engineer'']"
  by (simp add: job_roles_def)



text \<open>
  The fit expression has no default for a name outside the catalog: were it
  evaluated on one, the index \<open>job_roles[target_role]\<close> would raise.  The selector
  keeps that from happening.
\<close>

lemma job_fit_unknown_role:
  assumes "map_of job_roles name = None"
  shows "job_fit skills name = Inl KeyError"
  using assms by (simp add: job_fit_def dict_getitem_def)




end
